theory Spec2Isabelle
  imports Complex_Main
begin

section \<open>Values that cross the boundary of the adapter\<close>

text \<open>
  The adapter (\<^verbatim>\<open>src/types/adapter.ts\<close>, \<^verbatim>\<open>src/maestro-adapter.ts\<close>) reshapes the
  answers of the Maestro indexer. A rejected promise, a thrown library error, a failed
  \<^verbatim>\<open>invariant\<close> and a property read on \<^verbatim>\<open>undefined\<close> are all values of \<open>error\<close>; every
  asynchronous method returns \<open>error + 'a\<close>, with \<open>Inl\<close> for the throw.
\<close>

datatype error =
    Thrown string          \<comment> \<open>an error raised by an upstream call or an imported library\<close>
  | TypeError              \<comment> \<open>JavaScript: a method called on \<^verbatim>\<open>undefined\<close>\<close>
  | InvariantFailed string \<comment> \<open>tiny-invariant\<close>
  | DivisionByZero         \<comment> \<open>big.js, \<^verbatim>\<open>[big.js] Division by zero\<close>\<close>
  | InvalidExponent        \<comment> \<open>big.js, \<^verbatim>\<open>[big.js] Invalid exponent\<close>\<close>

text \<open>
  The loop variable \<^verbatim>\<open>cursor\<close> has the TypeScript type \<^verbatim>\<open>string | undefined | null\<close>, and so
  has the field \<^verbatim>\<open>next_cursor\<close> of a paginated response. \<open>truthy\<close> is JavaScript's
  \<^verbatim>\<open>if (cursor)\<close>: only a non-empty string passes.
\<close>

datatype js_cursor = Undefined | Null | Str string

fun truthy :: "js_cursor \<Rightarrow> bool" where
  "truthy (Str s) = (s \<noteq> [])"
| "truthy Undefined = False"
| "truthy Null = False"

datatype sort_order = Asc | Desc

text \<open>
  The query object \<^verbatim>\<open>{ count, order }\<close>, to which the loop adds \<^verbatim>\<open>cursor\<close>.
  \<open>qp_cursor = Undefined\<close> is the object without that property.
\<close>

record query_param =
  qp_count :: int
  qp_order :: sort_order
  qp_cursor :: js_cursor

text \<open>
  A paginated response. The loops start from \<^verbatim>\<open>{} as PaginatedAssetTx\<close>, an object that
  has neither field: \<open>data = None\<close> is the missing \<^verbatim>\<open>data\<close> property. The other fields of
  the indexer's answer (\<^verbatim>\<open>last_updated\<close>) are never read by the adapter.
\<close>

record 'd paginated =
  data :: "'d list option"
  next_cursor :: js_cursor

definition empty_object :: "'d paginated" where
  "empty_object = \<lparr>data = None, next_cursor = Undefined\<rparr>"

text \<open>
  The indexer is not a function of its arguments alone: the same request may be answered
  differently later. A paginated endpoint therefore takes, before its two arguments, the
  number of calls the run has already issued. A call is recorded as the query that was
  sent together with what came back.
\<close>

type_synonym 'd endpoint = "nat \<Rightarrow> string \<Rightarrow> query_param \<Rightarrow> error + 'd paginated"

type_synonym 'd call = "query_param \<times> (error + 'd paginated)"

section \<open>The pagination loop\<close>

text \<open>
  \<^verbatim>\<open>getPaginatedAssetTx\<close> and \<^verbatim>\<open>getPaginatedUtxosByPaymentCred\<close> are the same loop around two
  endpoints:
  \<^verbatim>\<open>
    let curr = 0; let res = {}; let cursor = "";
    while (curr < page) {
      if (cursor) { queryParam.cursor = cursor; }
      if (cursor === null) { break; }
      res = await endpoint(param, queryParam);
      cursor = res.next_cursor;
      curr++;
    }
    return res;
  \<close>
  \<open>paginate_loop\<close> is one entry into the loop test with the current values of the loop
  variables (\<open>cur\<close> is the source's \<^verbatim>\<open>curr\<close>); \<open>n\<close> counts the calls made so far. It
  returns what the helper returns (the last \<open>res\<close>, or the error of a rejected call) and
  the calls it issued from here on, in order.
\<close>

function paginate_loop ::
  "'d endpoint \<Rightarrow> string \<Rightarrow> int \<Rightarrow> int \<Rightarrow> 'd paginated \<Rightarrow> js_cursor \<Rightarrow> query_param \<Rightarrow> nat
     \<Rightarrow> (error + 'd paginated) \<times> 'd call list"
where
  "paginate_loop endpoint param page cur res cursor queryParam n =
     (if cur < page then
        (let queryParam' = (if truthy cursor then queryParam\<lparr>qp_cursor := cursor\<rparr> else queryParam)
         in if cursor = Null then (Inr res, [])
            else (case endpoint n param queryParam' of
                    Inl err \<Rightarrow> (Inl err, [(queryParam', Inl err)])
                  | Inr r \<Rightarrow>
                      (case paginate_loop endpoint param page (cur + 1) r (next_cursor r)
                              queryParam' (Suc n) of
                         (out, calls) \<Rightarrow> (out, (queryParam', Inr r) # calls))))
      else (Inr res, []))"
  by pat_completeness auto
termination
  by (relation "measure (\<lambda>(endpoint, param, page, cur, res, cursor, queryParam, n). nat (page - cur))")
     auto

declare paginate_loop.simps [simp del]

section \<open>What the indexer returns\<close>

text \<open>
  Only the fields that the adapter reads are kept. An entry of the asset-transaction list:
\<close>

record asset_tx =
  tx_hash :: string
  timestamp :: string

text \<open>An asset of an output (\<^verbatim>\<open>Asset\<close>), and an entry of the adapter's \<^verbatim>\<open>Value\<close>.\<close>

record asset =
  unit :: string
  amount :: int

record value_entry =
  value_unit :: string   \<comment> \<open>\<^verbatim>\<open>unit\<close> of a \<^verbatim>\<open>Value\<close> entry\<close>
  quantity :: string

record datum =
  hash :: string

text \<open>
  A transaction output, as an element of \<^verbatim>\<open>utxosByPaymentCred(...).data\<close> and of
  \<^verbatim>\<open>txInfo(...).data.outputs\<close>. \<open>datum = None\<close> is the output without a datum
  (\<^verbatim>\<open>utxo.datum?.hash\<close>).
\<close>

record utxo =
  address :: string
  utxo_tx_hash :: string   \<comment> \<open>\<^verbatim>\<open>tx_hash\<close> of the output\<close>
  index :: int
  assets :: "asset list"
  datum :: "datum option"

record tx_info =
  outputs :: "utxo list"

record token_metadata =
  decimals :: "int option"

record asset_info =
  token_registry_metadata :: "token_metadata option"

text \<open>
  \<^verbatim>\<open>this.api\<close>, the Maestro client. The two paginated endpoints are called several times in
  one run, so they take the call number; \<^verbatim>\<open>txInfo\<close> and \<^verbatim>\<open>assetInfo\<close> are called once for
  a given argument.
\<close>

record maestro_client =
  assetTxs :: "asset_tx endpoint"
  utxosByPaymentCred :: "utxo endpoint"
  txInfo :: "string \<Rightarrow> error + tx_info"
  assetInfo :: "string \<Rightarrow> error + asset_info"

text \<open>
  The two helpers start the loop with \<^verbatim>\<open>curr = 0\<close>, \<^verbatim>\<open>res = {}\<close> and \<^verbatim>\<open>cursor = ""\<close>.
\<close>

definition getPaginatedUtxosByPaymentCred ::
  "maestro_client \<Rightarrow> string \<Rightarrow> query_param \<Rightarrow> int \<Rightarrow> (error + utxo paginated) \<times> utxo call list"
where
  "getPaginatedUtxosByPaymentCred api param queryParam page =
     paginate_loop (utxosByPaymentCred api) param page 0 empty_object (Str []) queryParam 0"

definition getPaginatedAssetTx ::
  "maestro_client \<Rightarrow> string \<Rightarrow> query_param \<Rightarrow> int
     \<Rightarrow> (error + asset_tx paginated) \<times> asset_tx call list"
where
  "getPaginatedAssetTx api param queryParam page =
     paginate_loop (assetTxs api) param page 0 empty_object (Str []) queryParam 0"

text \<open>
  The chain of pages that the specification speaks of, written without the loop. The
  query for the first page is the caller's query; the query for the next page is the
  previous query with its cursor replaced by the \<^verbatim>\<open>next_cursor\<close> that the previous response
  carried (and the previous query again if that call was rejected). \<open>page_response\<close> is
  the endpoint's answer to the \<open>k\<close>-th query of the chain, counted from 0, and
  \<open>page_calls\<close> the first \<open>N\<close> calls of the chain.
\<close>

fun page_query :: "'d endpoint \<Rightarrow> string \<Rightarrow> query_param \<Rightarrow> nat \<Rightarrow> query_param" where
  "page_query endpoint param q 0 = q"
| "page_query endpoint param q (Suc k) =
     (case endpoint k param (page_query endpoint param q k) of
        Inr r \<Rightarrow> (page_query endpoint param q k)\<lparr>qp_cursor := next_cursor r\<rparr>
      | Inl err \<Rightarrow> page_query endpoint param q k)"

definition page_response ::
  "'d endpoint \<Rightarrow> string \<Rightarrow> query_param \<Rightarrow> nat \<Rightarrow> error + 'd paginated"
where
  "page_response endpoint param q k = endpoint k param (page_query endpoint param q k)"

definition page_calls :: "'d endpoint \<Rightarrow> string \<Rightarrow> query_param \<Rightarrow> nat \<Rightarrow> 'd call list" where
  "page_calls endpoint param q N =
     map (\<lambda>k. (page_query endpoint param q k, page_response endpoint param q k)) [0..<N]"

section \<open>What the module imports\<close>

text \<open>
  \<^verbatim>\<open>Value\<close> is a list of unit/quantity pairs; \<^verbatim>\<open>TxIn\<close> is a transaction hash with an
  output index.
\<close>

type_synonym Value = "value_entry list"

type_synonym tx_in = "string \<times> int"

text \<open>
  Modelled from the spec: the class \<^verbatim>\<open>PoolState\<close> (\<^verbatim>\<open>types/pool\<close>) is not under
  \<^verbatim>\<open>src/\<close>. The spec's data model gives it the address, the output reference, the asset
  reserves and the datum hash, "sourced verbatim".
\<close>

record pool_state =
  pool_address :: string
  txIn :: tx_in
  pool_value :: Value
  datumHash :: string

text \<open>
  What lucid-cardano's \<^verbatim>\<open>C.Address.from_bech32\<close> decodes: the kind of the address and its
  credentials. \<^verbatim>\<open>BaseAddress.from_address\<close> and its siblings return \<^verbatim>\<open>undefined\<close> for an
  address of another kind.
\<close>

datatype credential = KeyHash string | ScriptHash string

datatype csl_address =
    BaseAddress credential credential
  | EnterpriseAddress credential
  | PointerAddress credential
  | RewardAddress credential
  | ByronAddress

text \<open>
  The constants, the library functions and the functions of \<^verbatim>\<open>types/pool\<close> and
  \<^verbatim>\<open>types/pool.internal\<close> that the adapter calls and \<^verbatim>\<open>src/\<close> does not hold are
  parameters. A function that can throw returns an \<open>error\<close>. \<open>Big_DP\<close> is big.js's
  \<^verbatim>\<open>Big.DP\<close>, the number of decimal places a division keeps (20 unless reconfigured).
\<close>

record deps =
  POOL_SCRIPT_HASH :: string
  POOL_NFT_POLICY_ID :: string
  Address_from_bech32 :: "string \<Rightarrow> error + csl_address"
  ScriptHash_from_bech32 :: "string \<Rightarrow> error + string"
  ScriptHash_to_bech32 :: "string \<Rightarrow> string \<Rightarrow> string"
  isValidPoolOutput :: "string \<Rightarrow> Value \<Rightarrow> string option \<Rightarrow> error + bool"
  checkValidPoolOutput :: "string \<Rightarrow> Value \<Rightarrow> string \<Rightarrow> error option"
  PoolState_check :: "string \<Rightarrow> tx_in \<Rightarrow> Value \<Rightarrow> string \<Rightarrow> error option"
  assetA :: "pool_state \<Rightarrow> string"
  assetB :: "pool_state \<Rightarrow> string"
  reserveA :: "pool_state \<Rightarrow> int"
  reserveB :: "pool_state \<Rightarrow> int"
  Big_DP :: nat

text \<open>
  \<^verbatim>\<open>new PoolState(address, txIn, value, datumHash)\<close>: the constructor may reject its
  arguments (\<open>PoolState_check\<close>); otherwise the object holds them as they are.
\<close>

definition new_PoolState ::
  "deps \<Rightarrow> string \<Rightarrow> tx_in \<Rightarrow> Value \<Rightarrow> string \<Rightarrow> error + pool_state"
where
  "new_PoolState d addr txin val dh =
     (case PoolState_check d addr txin val dh of
        Some err \<Rightarrow> Inl err
      | None \<Rightarrow> Inr \<lparr>pool_address = addr, txIn = txin, pool_value = val, datumHash = dh\<rparr>)"

section \<open>Address utilities\<close>




text \<open>
  \<^verbatim>\<open>C.ScriptHash.from_bech32(scriptHash).to_bech32("addr_shared_vkh")\<close>. The other version
  of the function in the same file decodes the script hash in the same way and prints the
  credential's bytes in hexadecimal instead.
\<close>

definition getPaymentCredFromScriptHash :: "deps \<Rightarrow> string \<Rightarrow> error + string" where
  "getPaymentCredFromScriptHash d scriptHash =
     (case ScriptHash_from_bech32 d scriptHash of
        Inl err \<Rightarrow> Inl err
      | Inr h \<Rightarrow> Inr (ScriptHash_to_bech32 d h ''addr_shared_vkh''))"

section \<open>The adapter's methods\<close>


fun filter_throwing :: "('a \<Rightarrow> error + bool) \<Rightarrow> 'a list \<Rightarrow> error + 'a list" where
  "filter_throwing p [] = Inr []"
| "filter_throwing p (x # xs) =
     (case p x of
        Inl err \<Rightarrow> Inl err
      | Inr keep \<Rightarrow>
          (case filter_throwing p xs of
             Inl err \<Rightarrow> Inl err
           | Inr ys \<Rightarrow> Inr (if keep then x # ys else ys)))"

fun map_throwing :: "('a \<Rightarrow> error + 'b) \<Rightarrow> 'a list \<Rightarrow> error + 'b list" where
  "map_throwing f [] = Inr []"
| "map_throwing f (x # xs) =
     (case f x of
        Inl err \<Rightarrow> Inl err
      | Inr y \<Rightarrow>
          (case map_throwing f xs of
             Inl err \<Rightarrow> Inl err
           | Inr ys \<Rightarrow> Inr (y # ys)))"

text \<open>
  \<^verbatim>\<open>asset.amount.toString()\<close> for an integer amount: the decimal digits, with a sign.
\<close>

fun digits :: "nat \<Rightarrow> string" where
  "digits n =
     (if n < 10 then [''0123456789'' ! n]
      else digits (n div 10) @ [''0123456789'' ! (n mod 10)])"

declare digits.simps [simp del]

definition toString :: "int \<Rightarrow> string" where
  "toString i = (if i < 0 then CHR ''-'' # digits (nat (- i)) else digits (nat i))"

definition toValue :: "asset list \<Rightarrow> Value" where
  "toValue as = map (\<lambda>a. \<lparr>value_unit = unit a, quantity = toString (amount a)\<rparr>) as"

text \<open>
  \<^verbatim>\<open>utxo.datum?.hash\<close> as a truthy value: \<open>None\<close> when the output has no datum or the
  hash is the empty string.
\<close>

definition datum_hash :: "utxo \<Rightarrow> string option" where
  "datum_hash u =
     (case datum u of
        None \<Rightarrow> None
      | Some dt \<Rightarrow> (if hash dt = [] then None else Some (hash dt)))"


text \<open>
  \<^verbatim>\<open>getPools\<close> (\<^verbatim>\<open>src/types/adapter.ts\<close>), with the defaults \<^verbatim>\<open>count = 100\<close> and
  \<^verbatim>\<open>order = "asc"\<close>. \<^verbatim>\<open>res.data\<close> of an object without that property is \<^verbatim>\<open>undefined\<close>, and
  \<^verbatim>\<open>utxos.filter\<close> on it is a \<^verbatim>\<open>TypeError\<close>.
\<close>

record get_pools_params =
  pools_page :: int
  pools_count :: "int option"
  pools_order :: "sort_order option"

definition getPools :: "deps \<Rightarrow> maestro_client \<Rightarrow> get_pools_params \<Rightarrow> error + pool_state list" where
  "getPools d api params =
     (case getPaymentCredFromScriptHash d (POOL_SCRIPT_HASH d) of
        Inl err \<Rightarrow> Inl err
      | Inr paymentCred \<Rightarrow>
          (case fst (getPaginatedUtxosByPaymentCred api paymentCred
                       \<lparr>qp_count = (case pools_count params of None \<Rightarrow> 100 | Some c \<Rightarrow> c),
                        qp_order = (case pools_order params of None \<Rightarrow> Asc | Some ord \<Rightarrow> ord),
                        qp_cursor = Undefined\<rparr>
                       (pools_page params)) of
             Inl err \<Rightarrow> Inl err
           | Inr res \<Rightarrow>
               (case data res of
                  None \<Rightarrow> Inl TypeError
                | Some utxos \<Rightarrow>
                    (case filter_throwing
                            (\<lambda>u. isValidPoolOutput d (address u) (toValue (assets u)) (datum_hash u))
                            utxos of
                       Inl err \<Rightarrow> Inl err
                     | Inr pools \<Rightarrow>
                         map_throwing
                           (\<lambda>u. case datum_hash u of
                                  None \<Rightarrow>
                                    Inl (InvariantFailed
                                          (''expect pool to have datum hash, got '' @
                                           (case datum u of None \<Rightarrow> ''undefined''
                                            | Some dt \<Rightarrow> hash dt)))
                                | Some h \<Rightarrow>
                                    new_PoolState d (address u) (utxo_tx_hash u, index u)
                                      (toValue (assets u)) h)
                           pools))))"

text \<open>
  An entry of the pool history. The version of \<^verbatim>\<open>src/maestro-adapter.ts\<close> fills four
  fields and copies the timestamp as it is; the version of \<^verbatim>\<open>src/types/adapter.ts\<close> fills
  two and builds \<^verbatim>\<open>new Date(tx.timestamp)\<close>, which depends on the timestamp alone.
\<close>

datatype js_time = Timestamp string | Date string

record pool_history =
  txHash :: string
  txIndex :: "int option"
  blockHeight :: "int option"
  time :: js_time

record get_pool_history_params =
  history_id :: string
  history_page :: "int option"
  history_count :: "int option"
  history_order :: "sort_order option"

text \<open>
  \<^verbatim>\<open>getPoolHistory\<close> of \<^verbatim>\<open>src/types/adapter.ts\<close>, with the defaults \<^verbatim>\<open>page = 1\<close>,
  \<^verbatim>\<open>count = 100\<close> and \<^verbatim>\<open>order = "desc"\<close>. \<^verbatim>\<open>nftTxs.data.map\<close> on an object without
  \<^verbatim>\<open>data\<close> is a \<^verbatim>\<open>TypeError\<close>.
\<close>

definition getPoolHistory ::
  "deps \<Rightarrow> maestro_client \<Rightarrow> get_pool_history_params \<Rightarrow> error + pool_history list"
where
  "getPoolHistory d api params =
     (let nft = POOL_NFT_POLICY_ID d @ history_id params
      in case fst (getPaginatedAssetTx api nft
                     \<lparr>qp_count = (case history_count params of None \<Rightarrow> 100 | Some c \<Rightarrow> c),
                      qp_order = (case history_order params of None \<Rightarrow> Desc | Some ord \<Rightarrow> ord),
                      qp_cursor = Undefined\<rparr>
                     (case history_page params of None \<Rightarrow> 1 | Some p \<Rightarrow> p)) of
           Inl err \<Rightarrow> Inl err
         | Inr nftTxs \<Rightarrow>
             (case data nftTxs of
                None \<Rightarrow> Inl TypeError
              | Some txs \<Rightarrow>
                  Inr (map (\<lambda>tx. \<lparr>txHash = tx_hash tx, txIndex = None, blockHeight = None,
                                  time = Date (timestamp tx)\<rparr>) txs)))"

text \<open>
  \<^verbatim>\<open>getPoolHistory\<close> of \<^verbatim>\<open>src/maestro-adapter.ts\<close>: one call of \<^verbatim>\<open>assetTxs\<close>, no page, and
  \<^verbatim>\<open>
    txHash: tx.tx_hash,
    txIndex: 0, // To discuss: No such info at response
    blockHeight: 9913642, // To discuss: No such info at response
    time: tx.timestamp,
  \<close>
\<close>

definition getPoolHistory_maestro_adapter ::
  "deps \<Rightarrow> maestro_client \<Rightarrow> get_pool_history_params \<Rightarrow> error + pool_history list"
where
  "getPoolHistory_maestro_adapter d api params =
     (let nft = POOL_NFT_POLICY_ID d @ history_id params
      in case assetTxs api 0 nft
                \<lparr>qp_count = (case history_count params of None \<Rightarrow> 100 | Some c \<Rightarrow> c),
                 qp_order = (case history_order params of None \<Rightarrow> Desc | Some ord \<Rightarrow> ord),
                 qp_cursor = Undefined\<rparr> of
           Inl err \<Rightarrow> Inl err
         | Inr nftTxs \<Rightarrow>
             (case data nftTxs of
                None \<Rightarrow> Inl TypeError
              | Some txs \<Rightarrow>
                  Inr (map (\<lambda>tx. \<lparr>txHash = tx_hash tx, txIndex = Some 0,
                                  blockHeight = Some 9913642,
                                  time = Timestamp (timestamp tx)\<rparr>) txs)))"


text \<open>
  \<^verbatim>\<open>/^[0-9A-Fa-f]+$/.test(hexString)\<close>: at least one character, all of them hexadecimal
  digits.
\<close>

definition isValidHex :: "string \<Rightarrow> bool" where
  "isValidHex hexString =
     (hexString \<noteq> [] \<and> (\<forall>c \<in> set hexString. c \<in> set ''0123456789ABCDEFabcdef''))"

text \<open>
  \<^verbatim>\<open>getAssetDecimals\<close>; \<^verbatim>\<open>token_registry_metadata?.decimals ?? 0\<close> is 0 when the metadata
  or its \<^verbatim>\<open>decimals\<close> is missing.
\<close>

definition getAssetDecimals :: "maestro_client \<Rightarrow> string \<Rightarrow> error + int" where
  "getAssetDecimals api asset_id =
     (if asset_id = ''lovelace'' then Inr 6
      else (case assetInfo api asset_id of
              Inr assetAInfo \<Rightarrow>
                Inr (case token_registry_metadata assetAInfo of
                       None \<Rightarrow> 0
                     | Some m \<Rightarrow> (case decimals m of None \<Rightarrow> 0 | Some dec \<Rightarrow> dec))
            | Inl err \<Rightarrow>
                (if isValidHex asset_id \<and> length asset_id \<le> 122 then Inr 0 else Inl err)))"

section \<open>Decimal arithmetic and the pool price\<close>

text \<open>
  big.js is an imported library. A \<^verbatim>\<open>Big\<close> is a finite decimal, here a rational number.
  As the library documents it: \<^verbatim>\<open>div\<close> throws on a zero divisor and otherwise rounds the
  quotient to \<^verbatim>\<open>Big.DP\<close> decimal places in the rounding mode \<^verbatim>\<open>Big.RM\<close>, whose default
  rounds to the nearest neighbour and, when both are equally near, away from zero;
  \<^verbatim>\<open>pow(n)\<close> wants an integer exponent between \<open>-1000000\<close> and \<open>1000000\<close>, multiplies
  exactly, and for a negative \<open>n\<close> divides 1 by the power.
\<close>

definition big_round :: "nat \<Rightarrow> rat \<Rightarrow> rat" where
  "big_round dp x =
     (if 0 \<le> x then of_int \<lfloor>x * 10 ^ dp + 1 / 2\<rfloor> / 10 ^ dp
      else - (of_int \<lfloor>- x * 10 ^ dp + 1 / 2\<rfloor> / 10 ^ dp))"

definition big_div :: "nat \<Rightarrow> rat \<Rightarrow> rat \<Rightarrow> error + rat" where
  "big_div dp x y = (if y = 0 then Inl DivisionByZero else Inr (big_round dp (x / y)))"

definition big_pow :: "nat \<Rightarrow> rat \<Rightarrow> int \<Rightarrow> error + rat" where
  "big_pow dp x n =
     (if n < - 1000000 \<or> 1000000 < n then Inl InvalidExponent
      else if n < 0 then big_div dp 1 (x ^ nat (- n))
      else Inr (x ^ nat n))"

record get_pool_price_params =
  pool :: pool_state
  decimalsA :: "int option"
  decimalsB :: "int option"

text \<open>
  \<^verbatim>\<open>getPoolPrice\<close>, the same text in both files. \<^verbatim>\<open>Big(pool.reserveA.toString())\<close> is the
  reserve itself; each later step can throw, in the order of the source.
\<close>

definition getPoolPrice ::
  "deps \<Rightarrow> maestro_client \<Rightarrow> get_pool_price_params \<Rightarrow> error + rat \<times> rat"
where
  "getPoolPrice d api params =
     (case (case decimalsA params of
              None \<Rightarrow> getAssetDecimals api (assetA d (pool params))
            | Some dec \<Rightarrow> Inr dec) of
        Inl err \<Rightarrow> Inl err
      | Inr decA \<Rightarrow>
     (case (case decimalsB params of
              None \<Rightarrow> getAssetDecimals api (assetB d (pool params))
            | Some dec \<Rightarrow> Inr dec) of
        Inl err \<Rightarrow> Inl err
      | Inr decB \<Rightarrow>
     (case big_pow (Big_DP d) 10 decA of
        Inl err \<Rightarrow> Inl err
      | Inr powA \<Rightarrow>
     (case big_div (Big_DP d) (of_int (reserveA d (pool params))) powA of
        Inl err \<Rightarrow> Inl err
      | Inr adjustedReserveA \<Rightarrow>
     (case big_pow (Big_DP d) 10 decB of
        Inl err \<Rightarrow> Inl err
      | Inr powB \<Rightarrow>
     (case big_div (Big_DP d) (of_int (reserveB d (pool params))) powB of
        Inl err \<Rightarrow> Inl err
      | Inr adjustedReserveB \<Rightarrow>
     (case big_div (Big_DP d) adjustedReserveA adjustedReserveB of
        Inl err \<Rightarrow> Inl err
      | Inr priceAB \<Rightarrow>
     (case big_div (Big_DP d) adjustedReserveB adjustedReserveA of
        Inl err \<Rightarrow> Inl err
      | Inr priceBA \<Rightarrow> Inr (priceAB, priceBA)))))))))"

text \<open>
  The exact ratio of the decimal-adjusted reserves that the specification speaks of, with
  no rounding: \<open>(reserveA / 10^dA) / (reserveB / 10^dB)\<close>.
\<close>

definition spec_price :: "int \<Rightarrow> int \<Rightarrow> int \<Rightarrow> int \<Rightarrow> rat" where
  "spec_price rA dA rB dB =
     (of_int rA / 10 powi dA) / (of_int rB / 10 powi dB)"

section \<open>Concrete inputs\<close>

text \<open>
  An indexer with three pages. Its answer to call number \<open>n\<close> holds the \<open>n\<close>-th element
  of \<open>xs\<close>; the first answer carries the cursor \<^verbatim>\<open>"c1"\<close>, the second carries no
  \<^verbatim>\<open>next_cursor\<close> at all, and every later one carries \<^verbatim>\<open>null\<close>.
\<close>

definition demo_response :: "'d list \<Rightarrow> nat \<Rightarrow> 'd paginated" where
  "demo_response xs n =
     \<lparr>data = Some (take 1 (drop n xs)),
      next_cursor = (if n = 0 then Str ''c1'' else if n = 1 then Undefined else Null)\<rparr>"

definition paged_answer :: "'d list \<Rightarrow> 'd endpoint" where
  "paged_answer xs n param q = Inr (demo_response xs n)"

definition demo_txs :: "asset_tx list" where
  "demo_txs =
     [\<lparr>tx_hash = ''t0'', timestamp = ''2024-01-01''\<rparr>,
      \<lparr>tx_hash = ''t1'', timestamp = ''2024-01-02''\<rparr>,
      \<lparr>tx_hash = ''t2'', timestamp = ''2024-01-03''\<rparr>]"

definition pool_output :: utxo where
  "pool_output =
     \<lparr>address = ''addr1pool'', utxo_tx_hash = ''tx1'', index = 1,
      assets = [\<lparr>unit = ''lovelace'', amount = 5000000\<rparr>],
      datum = Some \<lparr>hash = ''d4''\<rparr>\<rparr>"

definition user_output :: utxo where
  "user_output =
     \<lparr>address = ''addr1user'', utxo_tx_hash = ''tx1'', index = 0,
      assets = [\<lparr>unit = ''lovelace'', amount = 12\<rparr>],
      datum = None\<rparr>"

definition demo_client :: maestro_client where
  "demo_client =
     \<lparr>assetTxs = paged_answer demo_txs,
      utxosByPaymentCred = paged_answer [pool_output, user_output, pool_output],
      txInfo = (\<lambda>h. if h = ''tx1'' then Inr \<lparr>outputs = [user_output, pool_output]\<rparr>
                     else if h = ''tx2'' then Inr \<lparr>outputs = [pool_output\<lparr>datum := None\<rparr>]\<rparr>
                     else Inl (Thrown ''transaction not found'')),
      assetInfo = (\<lambda>a. if a = ''0be5746f6b656e''
                        then Inr \<lparr>token_registry_metadata = Some \<lparr>decimals = Some 6\<rparr>\<rparr>
                        else Inl (Thrown ''asset not found''))\<rparr>"

definition demo_query :: query_param where
  "demo_query = \<lparr>qp_count = 1, qp_order = Desc, qp_cursor = Undefined\<rparr>"

text \<open>
  An indexer that answers by the cursor it is sent: without a cursor the first element
  of \<open>xs\<close> and the cursor \<^verbatim>\<open>"c1"\<close>; for \<^verbatim>\<open>"c1"\<close> the second element and the cursor
  \<^verbatim>\<open>"c2"\<close>; for \<^verbatim>\<open>"c2"\<close> the third element and \<^verbatim>\<open>null\<close>. With \<open>gap\<close> the second
  answer carries no \<^verbatim>\<open>next_cursor\<close>.
\<close>

definition cursor_page :: "bool \<Rightarrow> 'd list \<Rightarrow> js_cursor \<Rightarrow> 'd paginated" where
  "cursor_page gap xs c =
     (if c = Undefined then \<lparr>data = Some (take 1 xs), next_cursor = Str ''c1''\<rparr>
      else if c = Str ''c1''
        then \<lparr>data = Some (take 1 (drop 1 xs)),
              next_cursor = (if gap then Undefined else Str ''c2'')\<rparr>
      else if c = Str ''c2'' then \<lparr>data = Some (take 1 (drop 2 xs)), next_cursor = Null\<rparr>
      else \<lparr>data = Some [], next_cursor = Null\<rparr>)"

definition cursor_answer :: "bool \<Rightarrow> 'd list \<Rightarrow> 'd endpoint" where
  "cursor_answer gap xs n param q = Inr (cursor_page gap xs (qp_cursor q))"

definition cursor_client :: "bool \<Rightarrow> maestro_client" where
  "cursor_client gap =
     \<lparr>assetTxs = cursor_answer gap demo_txs,
      utxosByPaymentCred = cursor_answer gap [pool_output, user_output, pool_output],
      txInfo = (\<lambda>h. Inl (Thrown ''transaction not found'')),
      assetInfo = (\<lambda>a. Inl (Thrown ''asset not found''))\<rparr>"

text \<open>
  Imports under which \<^verbatim>\<open>addr1pool\<close> is a script address of the pool script and
  \<^verbatim>\<open>addr1user\<close> a key address, and a pool with the given reserves.
\<close>

definition demo_deps :: "int \<Rightarrow> int \<Rightarrow> deps" where
  "demo_deps rA rB =
     \<lparr>POOL_SCRIPT_HASH = ''script1aa'',
      POOL_NFT_POLICY_ID = ''0be5'',
      Address_from_bech32 =
        (\<lambda>a. if a = ''addr1pool'' then Inr (EnterpriseAddress (ScriptHash ''aa''))
              else if a = ''addr1user'' then Inr (BaseAddress (KeyHash ''bb'') (KeyHash ''cc''))
              else Inl (Thrown ''invalid address'')),
      ScriptHash_from_bech32 =
        (\<lambda>s. if s = ''script1aa'' then Inr ''aa'' else Inl (Thrown ''invalid script hash'')),
      ScriptHash_to_bech32 = (\<lambda>h prefix. prefix @ ''1'' @ h),
      isValidPoolOutput = (\<lambda>a v dh. Inr (dh \<noteq> None)),
      checkValidPoolOutput = (\<lambda>a v dh. None),
      PoolState_check = (\<lambda>a t v dh. None),
      assetA = (\<lambda>p. ''lovelace''),
      assetB = (\<lambda>p. ''0be5746f6b656e''),
      reserveA = (\<lambda>p. rA),
      reserveB = (\<lambda>p. rB),
      Big_DP = 20\<rparr>"


definition demo_pool :: pool_state where
  "demo_pool =
     \<lparr>pool_address = ''addr1pool'', txIn = (''tx1'', 1),
      pool_value = [\<lparr>value_unit = ''lovelace'', quantity = ''5000000''\<rparr>],
      datumHash = ''d4''\<rparr>"

section \<open>The pagination loop, step by step\<close>

lemma paginate_loop_exit:
  "\<not> cur < page \<Longrightarrow>
   paginate_loop endpoint param page cur res cursor queryParam n = (Inr res, [])"
  by (subst paginate_loop.simps) simp



lemma paginate_loop_step:
  assumes "cur < page" "cursor \<noteq> Null"
    and "q = (if truthy cursor then queryParam\<lparr>qp_cursor := cursor\<rparr> else queryParam)"
    and "endpoint n param q = Inr r"
    and "paginate_loop endpoint param page (cur + 1) r (next_cursor r) q (Suc n) = (out, calls)"
  shows "paginate_loop endpoint param page cur res cursor queryParam n = (out, (q, Inr r) # calls)"
  using assms by (subst paginate_loop.simps) (simp add: Let_def)





lemma paginate_loop_follows_chain:
  fixes N j :: nat
  assumes "j < N"
    and "\<forall>k < N. \<exists>r. page_response endpoint param q k = Inr r \<and> (Suc k < N \<longrightarrow> truthy (next_cursor r))"
    and "cursor \<noteq> Null"
    and "(if truthy cursor then queryParam\<lparr>qp_cursor := cursor\<rparr> else queryParam)
           = page_query endpoint param q j"
  shows "paginate_loop endpoint param (int N) (int j) res cursor queryParam j =
           (page_response endpoint param q (N - 1),
            map (\<lambda>k. (page_query endpoint param q k, page_response endpoint param q k)) [j..<N])"
  using assms
proof (induction "N - j" arbitrary: j res cursor queryParam)
  case 0
  then show ?case by simp
next
  case (Suc m)
  let ?qj = "page_query endpoint param q j"
  from Suc.prems(1,2) obtain r where r: "page_response endpoint param q j = Inr r"
    and tr: "Suc j < N \<longrightarrow> truthy (next_cursor r)" by blast
  from r have call: "endpoint j param ?qj = Inr r" by (simp add: page_response_def)
  have lt: "int j < int N" using Suc.prems(1) by simp
  have qeq: "?qj = (if truthy cursor then queryParam\<lparr>qp_cursor := cursor\<rparr> else queryParam)"
    using Suc.prems(4) by simp
  show ?case
  proof (cases "Suc j < N")
    case True
    with tr have t: "truthy (next_cursor r)" by simp
    then have nn: "next_cursor r \<noteq> Null" by auto
    have m: "m = N - Suc j" using Suc.hyps(2) by simp
    have next_q: "(if truthy (next_cursor r) then ?qj\<lparr>qp_cursor := next_cursor r\<rparr> else ?qj)
                    = page_query endpoint param q (Suc j)"
      using t call by simp
    have rec: "paginate_loop endpoint param (int N) (int (Suc j)) r (next_cursor r) ?qj (Suc j) =
                 (page_response endpoint param q (N - 1),
                  map (\<lambda>k. (page_query endpoint param q k, page_response endpoint param q k))
                    [Suc j..<N])"
      by (rule Suc.hyps(1)[OF m True Suc.prems(2) nn next_q])
    then have rec': "paginate_loop endpoint param (int N) (int j + 1) r (next_cursor r) ?qj (Suc j) =
                 (page_response endpoint param q (N - 1),
                  map (\<lambda>k. (page_query endpoint param q k, page_response endpoint param q k))
                    [Suc j..<N])"
      by (simp add: add.commute)
    have "paginate_loop endpoint param (int N) (int j) res cursor queryParam j =
            (page_response endpoint param q (N - 1),
             (?qj, Inr r) #
             map (\<lambda>k. (page_query endpoint param q k, page_response endpoint param q k))
               [Suc j..<N])"
      by (rule paginate_loop_step[where endpoint=endpoint and n=j and param=param and q="?qj"
            and cur="int j" and page="int N" and cursor=cursor and queryParam=queryParam
            and res=res and r=r, OF lt Suc.prems(3) qeq call rec'])
    then show ?thesis using Suc.prems(1) r by (simp add: upt_conv_Cons)
  next
    case False
    with Suc.prems(1) have N: "N = Suc j" by simp
    have ex: "\<not> int j + 1 < int N" using N by simp
    have rec: "paginate_loop endpoint param (int N) (int j + 1) r (next_cursor r) ?qj (Suc j)
                 = (Inr r, [])"
      by (rule paginate_loop_exit[OF ex])
    have "paginate_loop endpoint param (int N) (int j) res cursor queryParam j =
            (Inr r, [(?qj, Inr r)])"
      by (rule paginate_loop_step[where endpoint=endpoint and n=j and param=param and q="?qj"
            and cur="int j" and page="int N" and cursor=cursor and queryParam=queryParam
            and res=res and r=r, OF lt Suc.prems(3) qeq call rec])
    then show ?thesis using N r by simp
  qed
qed

lemma paginate_loop_page_N:
  assumes "1 \<le> N"
    and "\<forall>k < nat N. \<exists>r. page_response endpoint param q k = Inr r \<and>
            (Suc k < nat N \<longrightarrow> truthy (next_cursor r))"
  shows "paginate_loop endpoint param N 0 res (Str []) q 0 =
           (page_response endpoint param q (nat N - 1), page_calls endpoint param q (nat N))
         \<and> int (length (page_calls endpoint param q (nat N))) = N"
proof -
  have "0 < nat N" using assms(1) by simp
  from paginate_loop_follows_chain[OF this assms(2), of "Str []" q res]
  have "paginate_loop endpoint param (int (nat N)) (int 0) res (Str []) q 0 =
           (page_response endpoint param q (nat N - 1), page_calls endpoint param q (nat N))"
    by (simp add: page_calls_def)
  then show ?thesis using assms(1) by (simp add: page_calls_def)
qed





text \<open>The indexers that answer by cursor, with and without the gap.\<close>

lemma chain_pages:
  "page_query (cursor_answer False xs) p demo_query 0 = demo_query"
  "page_query (cursor_answer False xs) p demo_query (Suc 0) = demo_query\<lparr>qp_cursor := Str ''c1''\<rparr>"
  "page_query (cursor_answer False xs) p demo_query (Suc (Suc 0))
     = demo_query\<lparr>qp_cursor := Str ''c2''\<rparr>"
  by (simp_all add: cursor_answer_def cursor_page_def demo_query_def)

lemma chain_responses:
  "page_response (cursor_answer False xs) p demo_query 0 = Inr (cursor_page False xs Undefined)"
  "page_response (cursor_answer False xs) p demo_query (Suc 0)
     = Inr (cursor_page False xs (Str ''c1''))"
  "page_response (cursor_answer False xs) p demo_query (Suc (Suc 0))
     = Inr (cursor_page False xs (Str ''c2''))"
  by (simp_all add: page_response_def chain_pages del: page_query.simps)
     (simp_all add: cursor_answer_def demo_query_def)

lemma chain_answered:
  "\<forall>k < nat 3. \<exists>r. page_response (cursor_answer False xs) p demo_query k = Inr r \<and>
       (Suc k < nat 3 \<longrightarrow> truthy (next_cursor r))"
proof (intro allI impI)
  fix k assume "k < nat 3"
  then consider "k = 0" | "k = Suc 0" | "k = Suc (Suc 0)" by (auto simp: less_Suc_eq numeral_3_eq_3)
  then show "\<exists>r. page_response (cursor_answer False xs) p demo_query k = Inr r \<and>
       (Suc k < nat 3 \<longrightarrow> truthy (next_cursor r))"
    by cases (simp_all add: chain_responses cursor_page_def del: page_query.simps)
qed

lemma gap_run_assets:
  "getPaginatedAssetTx (cursor_client True) ''nft'' demo_query 3 =
     (Inr (cursor_page True demo_txs (Str ''c1'')),
      [(demo_query, Inr (cursor_page True demo_txs Undefined)),
       (demo_query\<lparr>qp_cursor := Str ''c1''\<rparr>, Inr (cursor_page True demo_txs (Str ''c1''))),
       (demo_query\<lparr>qp_cursor := Str ''c1''\<rparr>, Inr (cursor_page True demo_txs (Str ''c1'')))])"
  "getPaginatedAssetTx (cursor_client True) ''nft'' demo_query 2 =
     (Inr (cursor_page True demo_txs (Str ''c1'')),
      [(demo_query, Inr (cursor_page True demo_txs Undefined)),
       (demo_query\<lparr>qp_cursor := Str ''c1''\<rparr>, Inr (cursor_page True demo_txs (Str ''c1'')))])"
  by (simp_all add: getPaginatedAssetTx_def cursor_client_def cursor_answer_def
        paginate_loop.simps cursor_page_def Let_def demo_query_def)

lemma gap_run_utxos:
  "getPaginatedUtxosByPaymentCred (cursor_client True) ''cred'' demo_query 3 =
     (Inr (cursor_page True [pool_output, user_output, pool_output] (Str ''c1'')),
      [(demo_query, Inr (cursor_page True [pool_output, user_output, pool_output] Undefined)),
       (demo_query\<lparr>qp_cursor := Str ''c1''\<rparr>,
        Inr (cursor_page True [pool_output, user_output, pool_output] (Str ''c1''))),
       (demo_query\<lparr>qp_cursor := Str ''c1''\<rparr>,
        Inr (cursor_page True [pool_output, user_output, pool_output] (Str ''c1'')))])"
  "getPaginatedUtxosByPaymentCred (cursor_client True) ''cred'' demo_query 2 =
     (Inr (cursor_page True [pool_output, user_output, pool_output] (Str ''c1'')),
      [(demo_query, Inr (cursor_page True [pool_output, user_output, pool_output] Undefined)),
       (demo_query\<lparr>qp_cursor := Str ''c1''\<rparr>,
        Inr (cursor_page True [pool_output, user_output, pool_output] (Str ''c1'')))])"
  by (simp_all add: getPaginatedUtxosByPaymentCred_def cursor_client_def cursor_answer_def
        paginate_loop.simps cursor_page_def Let_def demo_query_def)

section \<open>Claims about the pagination helpers\<close>

text \<open>
  Claim C1, as stated, asks only that the first \<open>N - 1\<close> responses carry a
  \<^verbatim>\<open>next_cursor\<close> other than \<^verbatim>\<open>null\<close>, and says that the helper then returns the response
  for page \<open>N\<close>. On the indexer with the gap, asked for page 3, both responses of the
  first two calls carry a \<^verbatim>\<open>next_cursor\<close> other than \<^verbatim>\<open>null\<close> and three calls are made,
  but the third call is sent with the cursor \<^verbatim>\<open>"c1"\<close> again and the helper returns the
  second page, the same response as when asked for page 2; the third page, behind the
  cursor \<^verbatim>\<open>"c2"\<close>, is never asked for.
\<close>

theorem pagination_page_N_counterexample:
  "getPaginatedAssetTx (cursor_client True) ''nft'' demo_query 3 =
     (Inr (cursor_page True demo_txs (Str ''c1'')),
      [(demo_query, Inr (cursor_page True demo_txs Undefined)),
       (demo_query\<lparr>qp_cursor := Str ''c1''\<rparr>, Inr (cursor_page True demo_txs (Str ''c1''))),
       (demo_query\<lparr>qp_cursor := Str ''c1''\<rparr>, Inr (cursor_page True demo_txs (Str ''c1'')))])
   \<and> next_cursor (cursor_page True demo_txs Undefined) \<noteq> Null
   \<and> next_cursor (cursor_page True demo_txs (Str ''c1'')) \<noteq> Null
   \<and> fst (getPaginatedAssetTx (cursor_client True) ''nft'' demo_query 3)
       = fst (getPaginatedAssetTx (cursor_client True) ''nft'' demo_query 2)
   \<and> data (cursor_page True demo_txs (Str ''c1''))
       = Some [\<lparr>tx_hash = ''t1'', timestamp = ''2024-01-02''\<rparr>]
   \<and> data (cursor_page True demo_txs (Str ''c2''))
       = Some [\<lparr>tx_hash = ''t2'', timestamp = ''2024-01-03''\<rparr>]
   \<and> length (snd (getPaginatedUtxosByPaymentCred (cursor_client True) ''cred'' demo_query 3)) = 3
   \<and> fst (getPaginatedUtxosByPaymentCred (cursor_client True) ''cred'' demo_query 3)
       = fst (getPaginatedUtxosByPaymentCred (cursor_client True) ''cred'' demo_query 2)"
  by (simp add: gap_run_assets gap_run_utxos) (simp add: cursor_page_def demo_txs_def)

text \<open>
  Claim C1, amended. For every page number \<open>N \<ge> 1\<close>: follow the chain of pages from the
  caller's query, each query carrying the \<^verbatim>\<open>next_cursor\<close> of the previous response. If
  the first \<open>N\<close> calls of this chain are answered and each of the first \<open>N - 1\<close>
  responses carries a non-empty string as \<^verbatim>\<open>next_cursor\<close>, then each of
  \<^verbatim>\<open>getPaginatedAssetTx\<close> and \<^verbatim>\<open>getPaginatedUtxosByPaymentCred\<close> makes exactly these \<open>N\<close>
  calls, in this order, and returns the response of the \<open>N\<close>-th, the response for page
  \<open>N\<close>.
\<close>

theorem pagination_page_N_of_chain:
  assumes "1 \<le> N"
  shows "((\<forall>k < nat N. \<exists>r. page_response (assetTxs api) param queryParam k = Inr r \<and>
              (Suc k < nat N \<longrightarrow> truthy (next_cursor r))) \<longrightarrow>
          getPaginatedAssetTx api param queryParam N =
            (page_response (assetTxs api) param queryParam (nat N - 1),
             page_calls (assetTxs api) param queryParam (nat N))
          \<and> int (length (page_calls (assetTxs api) param queryParam (nat N))) = N)
       \<and> ((\<forall>k < nat N. \<exists>r. page_response (utxosByPaymentCred api) param' queryParam' k = Inr r \<and>
              (Suc k < nat N \<longrightarrow> truthy (next_cursor r))) \<longrightarrow>
          getPaginatedUtxosByPaymentCred api param' queryParam' N =
            (page_response (utxosByPaymentCred api) param' queryParam' (nat N - 1),
             page_calls (utxosByPaymentCred api) param' queryParam' (nat N))
          \<and> int (length (page_calls (utxosByPaymentCred api) param' queryParam' (nat N))) = N)"
  unfolding getPaginatedAssetTx_def getPaginatedUtxosByPaymentCred_def
  by (rule conjI; intro impI; rule paginate_loop_page_N[OF assms]; assumption)

theorem pagination_page_N_of_chain_witness:
  "(1::int) \<le> 3
   \<and> getPaginatedAssetTx (cursor_client False) ''nft'' demo_query 3 =
       (Inr (cursor_page False demo_txs (Str ''c2'')),
        [(demo_query, Inr (cursor_page False demo_txs Undefined)),
         (demo_query\<lparr>qp_cursor := Str ''c1''\<rparr>, Inr (cursor_page False demo_txs (Str ''c1''))),
         (demo_query\<lparr>qp_cursor := Str ''c2''\<rparr>, Inr (cursor_page False demo_txs (Str ''c2'')))])
   \<and> data (cursor_page False demo_txs (Str ''c2''))
       = Some [\<lparr>tx_hash = ''t2'', timestamp = ''2024-01-03''\<rparr>]
   \<and> getPaginatedUtxosByPaymentCred (cursor_client False) ''cred'' demo_query 3 =
       (Inr (cursor_page False [pool_output, user_output, pool_output] (Str ''c2'')),
        [(demo_query, Inr (cursor_page False [pool_output, user_output, pool_output] Undefined)),
         (demo_query\<lparr>qp_cursor := Str ''c1''\<rparr>,
          Inr (cursor_page False [pool_output, user_output, pool_output] (Str ''c1''))),
         (demo_query\<lparr>qp_cursor := Str ''c2''\<rparr>,
          Inr (cursor_page False [pool_output, user_output, pool_output] (Str ''c2'')))])"
proof -
  have N: "(1::int) \<le> 3" by simp
  have a: "assetTxs (cursor_client False) = cursor_answer False demo_txs"
    and u: "utxosByPaymentCred (cursor_client False)
              = cursor_answer False [pool_output, user_output, pool_output]"
    by (simp_all add: cursor_client_def)
  have calls: "page_calls (cursor_answer False xs) p demo_query (nat 3) =
      [(demo_query, Inr (cursor_page False xs Undefined)),
       (demo_query\<lparr>qp_cursor := Str ''c1''\<rparr>, Inr (cursor_page False xs (Str ''c1''))),
       (demo_query\<lparr>qp_cursor := Str ''c2''\<rparr>, Inr (cursor_page False xs (Str ''c2'')))]"
    for xs :: "'d list" and p
    by (simp add: page_calls_def numeral_3_eq_3 upt_rec chain_pages chain_responses
          del: page_query.simps)
  have last_page: "page_response (cursor_answer False xs) p demo_query (nat 3 - 1)
                     = Inr (cursor_page False xs (Str ''c2''))" for xs :: "'d list" and p
    by (simp add: numeral_3_eq_3 chain_responses del: page_query.simps)
  have d: "data (cursor_page False demo_txs (Str ''c2''))
             = Some [\<lparr>tx_hash = ''t2'', timestamp = ''2024-01-03''\<rparr>]"
    by (simp add: cursor_page_def demo_txs_def)
  note t = pagination_page_N_of_chain[OF N, of "cursor_client False" "''nft''" demo_query
             "''cred''" demo_query, unfolded a u]
  from t[THEN conjunct1, THEN mp, OF chain_answered]
  have 1: "getPaginatedAssetTx (cursor_client False) ''nft'' demo_query 3 =
       (Inr (cursor_page False demo_txs (Str ''c2'')),
        [(demo_query, Inr (cursor_page False demo_txs Undefined)),
         (demo_query\<lparr>qp_cursor := Str ''c1''\<rparr>, Inr (cursor_page False demo_txs (Str ''c1''))),
         (demo_query\<lparr>qp_cursor := Str ''c2''\<rparr>, Inr (cursor_page False demo_txs (Str ''c2'')))])"
    by (simp only: calls last_page)
  from t[THEN conjunct2, THEN mp, OF chain_answered]
  have 2: "getPaginatedUtxosByPaymentCred (cursor_client False) ''cred'' demo_query 3 =
       (Inr (cursor_page False [pool_output, user_output, pool_output] (Str ''c2'')),
        [(demo_query, Inr (cursor_page False [pool_output, user_output, pool_output] Undefined)),
         (demo_query\<lparr>qp_cursor := Str ''c1''\<rparr>,
          Inr (cursor_page False [pool_output, user_output, pool_output] (Str ''c1''))),
         (demo_query\<lparr>qp_cursor := Str ''c2''\<rparr>,
          Inr (cursor_page False [pool_output, user_output, pool_output] (Str ''c2'')))])"
    by (simp only: calls last_page)
  from N 1 2 d show ?thesis by blast
qed






lemma paginate_loop_no_page:
  "N \<le> 0 \<Longrightarrow> paginate_loop endpoint param N 0 res cursor queryParam n = (Inr res, [])"
  by (rule paginate_loop_exit) simp

text \<open>
  Claim C9. For every page number \<open>N \<le> 0\<close> the two helpers make no call and return the
  empty object, which has no \<^verbatim>\<open>data\<close>; \<^verbatim>\<open>getPoolHistory\<close> called with that page then
  fails with a \<^verbatim>\<open>TypeError\<close> when it maps over the missing \<^verbatim>\<open>data\<close>, and so does
  \<^verbatim>\<open>getPools\<close> when it filters it, unless decoding the pool script hash has already
  thrown.
\<close>

theorem pagination_nonpositive_page:
  assumes "N \<le> 0"
  shows "getPaginatedAssetTx api param queryParam N = (Inr empty_object, [])
       \<and> getPaginatedUtxosByPaymentCred api param' queryParam' N = (Inr empty_object, [])
       \<and> data (empty_object :: asset_tx paginated) = None
       \<and> data (empty_object :: utxo paginated) = None
       \<and> (history_page hp = Some N \<longrightarrow> getPoolHistory d api hp = Inl TypeError)
       \<and> (pools_page pp = N \<longrightarrow>
            getPools d api pp =
              (case getPaymentCredFromScriptHash d (POOL_SCRIPT_HASH d) of
                 Inl err \<Rightarrow> Inl err
               | Inr paymentCred \<Rightarrow> Inl TypeError))"
proof -
  have a: "getPaginatedAssetTx api p q N = (Inr empty_object, [])" for p q
    unfolding getPaginatedAssetTx_def by (rule paginate_loop_no_page[OF assms])
  have u: "getPaginatedUtxosByPaymentCred api p q N = (Inr empty_object, [])" for p q
    unfolding getPaginatedUtxosByPaymentCred_def by (rule paginate_loop_no_page[OF assms])
  have e: "data (empty_object :: 'd paginated) = None"
    by (simp add: empty_object_def)
  have h: "getPoolHistory d api hp = Inl TypeError" if "history_page hp = Some N"
    using that by (simp add: getPoolHistory_def a e)
  have p: "getPools d api pp =
              (case getPaymentCredFromScriptHash d (POOL_SCRIPT_HASH d) of
                 Inl err \<Rightarrow> Inl err
               | Inr paymentCred \<Rightarrow> Inl TypeError)" if "pools_page pp = N"
    using that by (simp add: getPools_def u e split: sum.splits)
  from a u h p show ?thesis by (simp add: empty_object_def)
qed

theorem pagination_nonpositive_page_witness:
  "(0::int) \<le> 0
   \<and> getPaginatedAssetTx demo_client ''nft'' demo_query 0 = (Inr empty_object, [])
   \<and> getPaginatedUtxosByPaymentCred demo_client ''cred'' demo_query 0 = (Inr empty_object, [])
   \<and> getPoolHistory (demo_deps 1 3) demo_client
        \<lparr>history_id = ''706f6f6c'', history_page = Some 0, history_count = None,
         history_order = None\<rparr> = Inl TypeError
   \<and> getPools (demo_deps 1 3) demo_client
        \<lparr>pools_page = 0, pools_count = None, pools_order = None\<rparr> = Inl TypeError"
proof -
  have N: "(0::int) \<le> 0" by simp
  have c: "getPaymentCredFromScriptHash (demo_deps 1 3) (POOL_SCRIPT_HASH (demo_deps 1 3))
             = Inr ''addr_shared_vkh1aa''"
    by (simp add: getPaymentCredFromScriptHash_def demo_deps_def)
  show ?thesis
    using pagination_nonpositive_page[OF N, of demo_client "''nft''" demo_query "''cred''" demo_query
      "\<lparr>history_id = ''706f6f6c'', history_page = Some 0, history_count = None,
         history_order = None\<rparr>" "demo_deps 1 3"
      "\<lparr>pools_page = 0, pools_count = None, pools_order = None\<rparr>"]
    by (simp add: c)
qed

section \<open>Claims about asset decimals\<close>

lemma long_ids:
  "replicate 122 CHR ''a'' \<noteq> ''lovelace''" "replicate 123 CHR ''a'' \<noteq> ''lovelace''"
  "replicate 122 CHR ''a'' \<noteq> ''0be5746f6b656e''" "replicate 123 CHR ''a'' \<noteq> ''0be5746f6b656e''"
proof -
  have "length (replicate n CHR ''a'') \<noteq> length s \<Longrightarrow> replicate n CHR ''a'' \<noteq> s" for n s
    by auto
  then show "replicate 122 CHR ''a'' \<noteq> ''lovelace''" "replicate 123 CHR ''a'' \<noteq> ''lovelace''"
    "replicate 122 CHR ''a'' \<noteq> ''0be5746f6b656e''" "replicate 123 CHR ''a'' \<noteq> ''0be5746f6b656e''"
    by simp_all
qed

text \<open>
  Claim C5. For every asset identifier other than \<^verbatim>\<open>lovelace\<close>: when the metadata lookup
  fails with an error, \<^verbatim>\<open>getAssetDecimals\<close> returns 0 exactly if the identifier is a
  non-empty string of hexadecimal digits of length at most 122, and fails with the same
  error otherwise; when the lookup succeeds, \<^verbatim>\<open>getAssetDecimals\<close> returns a number.
\<close>

theorem getAssetDecimals_lookup:
  assumes "asset_id \<noteq> ''lovelace''"
  shows "(assetInfo api asset_id = Inl err \<longrightarrow>
            getAssetDecimals api asset_id =
              (if asset_id \<noteq> [] \<and> set asset_id \<subseteq> set ''0123456789ABCDEFabcdef''
                  \<and> length asset_id \<le> 122
               then Inr 0 else Inl err))
       \<and> (assetInfo api asset_id = Inr info \<longrightarrow> (\<exists>dec. getAssetDecimals api asset_id = Inr dec))"
proof -
  define ok where
    "ok = (asset_id \<noteq> [] \<and> set asset_id \<subseteq> set ''0123456789ABCDEFabcdef''
           \<and> length asset_id \<le> 122)"
  have "(isValidHex asset_id \<and> length asset_id \<le> 122) = ok"
    unfolding ok_def isValidHex_def by blast
  then have "getAssetDecimals api asset_id =
      (case assetInfo api asset_id of
         Inr assetAInfo \<Rightarrow>
           Inr (case token_registry_metadata assetAInfo of
                  None \<Rightarrow> 0
                | Some m \<Rightarrow> (case decimals m of None \<Rightarrow> 0 | Some dec \<Rightarrow> dec))
       | Inl err \<Rightarrow> (if ok then Inr 0 else Inl err))"
    using assms unfolding getAssetDecimals_def by (simp only: if_False)
  then show ?thesis unfolding ok_def[symmetric] by simp
qed

theorem getAssetDecimals_lookup_witness:
  "''abcd'' \<noteq> ''lovelace'' \<and> ''xyz'' \<noteq> ''lovelace''
   \<and> assetInfo demo_client ''abcd'' = Inl (Thrown ''asset not found'')
   \<and> getAssetDecimals demo_client ''abcd'' = Inr 0
   \<and> assetInfo demo_client ''xyz'' = Inl (Thrown ''asset not found'')
   \<and> getAssetDecimals demo_client ''xyz'' = Inl (Thrown ''asset not found'')
   \<and> (\<exists>dec. getAssetDecimals demo_client ''0be5746f6b656e'' = Inr dec)
   \<and> getAssetDecimals demo_client (replicate 122 CHR ''a'') = Inr 0
   \<and> getAssetDecimals demo_client (replicate 123 CHR ''a'') = Inl (Thrown ''asset not found'')"
proof -
  have fl: "assetInfo demo_client (replicate 122 CHR ''a'') = Inl (Thrown ''asset not found'')"
    "assetInfo demo_client (replicate 123 CHR ''a'') = Inl (Thrown ''asset not found'')"
    by (simp_all add: demo_client_def long_ids)
  from getAssetDecimals_lookup[OF long_ids(1), of demo_client "Thrown ''asset not found''"] fl(1)
  have 4: "getAssetDecimals demo_client (replicate 122 CHR ''a'') = Inr 0" by simp
  from getAssetDecimals_lookup[OF long_ids(2), of demo_client "Thrown ''asset not found''"] fl(2)
  have 5: "getAssetDecimals demo_client (replicate 123 CHR ''a'') = Inl (Thrown ''asset not found'')"
    by simp
  have a: "''abcd'' \<noteq> ''lovelace''" and x: "''xyz'' \<noteq> ''lovelace''"
    and t: "''0be5746f6b656e'' \<noteq> ''lovelace''" by simp_all
  have fa: "assetInfo demo_client ''abcd'' = Inl (Thrown ''asset not found'')"
    and fx: "assetInfo demo_client ''xyz'' = Inl (Thrown ''asset not found'')"
    and ft: "assetInfo demo_client ''0be5746f6b656e''
               = Inr \<lparr>token_registry_metadata = Some \<lparr>decimals = Some 6\<rparr>\<rparr>"
    by (simp_all add: demo_client_def)
  from getAssetDecimals_lookup[OF a, of demo_client "Thrown ''asset not found''"] fa
  have 1: "getAssetDecimals demo_client ''abcd'' = Inr 0" by simp
  from getAssetDecimals_lookup[OF x, of demo_client "Thrown ''asset not found''"] fx
  have 2: "getAssetDecimals demo_client ''xyz'' = Inl (Thrown ''asset not found'')" by simp
  from getAssetDecimals_lookup[OF t, of demo_client _
         "\<lparr>token_registry_metadata = Some \<lparr>decimals = Some 6\<rparr>\<rparr>"] ft
  have 3: "\<exists>dec. getAssetDecimals demo_client ''0be5746f6b656e'' = Inr dec" by simp
  from a x fa fx 1 2 3 4 5 show ?thesis by blast
qed

section \<open>Claims about the pool of a transaction\<close>






section \<open>Claims about the pool history\<close>

text \<open>
  In the version of \<^verbatim>\<open>src/maestro-adapter.ts\<close> every entry has the transaction index 0
  and the block height 9913642, whatever the indexer answered. The version of
  \<^verbatim>\<open>src/types/adapter.ts\<close> takes both of its fields from the response entry at the same
  position.
\<close>

lemma getPoolHistory_maestro_adapter_constants:
  "getPoolHistory_maestro_adapter d api hp = Inr hs \<Longrightarrow> h \<in> set hs
   \<Longrightarrow> txIndex h = Some 0 \<and> blockHeight h = Some 9913642"
  by (auto simp: getPoolHistory_maestro_adapter_def Let_def split: sum.splits option.splits)

lemma getPoolHistory_from_response:
  "getPoolHistory d api hp = Inr hs \<Longrightarrow>
   \<exists>res txs. fst (getPaginatedAssetTx api (POOL_NFT_POLICY_ID d @ history_id hp)
                    \<lparr>qp_count = (case history_count hp of None \<Rightarrow> 100 | Some c \<Rightarrow> c),
                     qp_order = (case history_order hp of None \<Rightarrow> Desc | Some ord \<Rightarrow> ord),
                     qp_cursor = Undefined\<rparr>
                    (case history_page hp of None \<Rightarrow> 1 | Some p \<Rightarrow> p)) = Inr res
      \<and> data res = Some txs \<and> length hs = length txs
      \<and> (\<forall>i < length txs. txHash (hs ! i) = tx_hash (txs ! i)
             \<and> time (hs ! i) = Date (timestamp (txs ! i))
             \<and> txIndex (hs ! i) = None \<and> blockHeight (hs ! i) = None)"
  by (auto simp: getPoolHistory_def Let_def split: sum.splits option.splits)

text \<open>
  Claim C7 says that each field of a history entry equals the corresponding field of the
  transaction entry in the indexer's response, and that no field is independent of the
  response. \<^verbatim>\<open>getPoolHistory\<close> of \<^verbatim>\<open>src/maestro-adapter.ts\<close>, run on a response with the
  single entry \<^verbatim>\<open>{tx_hash: "t0", timestamp: "2024-01-01"}\<close>, returns an entry with the
  transaction index 0 and the block height 9913642, which the response does not contain.
\<close>

theorem getPoolHistory_maestro_adapter_placeholders:
  "getPoolHistory_maestro_adapter (demo_deps 1 3) demo_client
     \<lparr>history_id = ''706f6f6c'', history_page = None, history_count = None,
      history_order = None\<rparr>
   = Inr [\<lparr>txHash = ''t0'', txIndex = Some 0, blockHeight = Some 9913642,
           time = Timestamp ''2024-01-01''\<rparr>]"
  by (simp add: getPoolHistory_maestro_adapter_def demo_client_def paged_answer_def
        demo_response_def demo_txs_def)

section \<open>Claims about the pool price\<close>

lemma floor_half_int: "\<lfloor>(of_int m :: rat) + 1 / 2\<rfloor> = m"
  by (rule floor_unique) simp_all


lemma big_round_zero [simp]: "big_round dp 0 = 0"
  using floor_half_int[of 0] by (simp add: big_round_def)

lemma big_round_ratio:
  assumes "0 \<le> a" and "0 < b"
  shows "big_round dp (of_int a / of_int b)
           = of_int ((2 * a * 10 ^ dp + b) div (2 * b)) / 10 ^ dp"
proof -
  have nn: "0 \<le> (of_int a / of_int b :: rat)" using assms by simp
  have "(of_int a / of_int b :: rat) * 10 ^ dp + 1 / 2
          = of_int (2 * a * 10 ^ dp + b) / of_int (2 * b)"
    using assms by (simp add: field_simps)
  then have "\<lfloor>(of_int a / of_int b :: rat) * 10 ^ dp + 1 / 2\<rfloor>
          = (2 * a * 10 ^ dp + b) div (2 * b)"
    by (simp only: floor_divide_of_int_eq)
  with nn show ?thesis unfolding big_round_def by (simp only: if_True)
qed

lemma big_round_of_int_div:
  assumes "k \<le> dp"
  shows "big_round dp (of_int a / 10 ^ k) = of_int a / 10 ^ k"
proof -
  have p: "(10::rat) ^ dp = 10 ^ k * 10 ^ (dp - k)"
    using assms by (simp flip: power_add)
  have e: "(of_int a / 10 ^ k) * 10 ^ dp = (of_int (a * 10 ^ (dp - k)) :: rat)"
    by (simp add: p)
  have e': "- (of_int a / 10 ^ k) * 10 ^ dp = (of_int (- (a * 10 ^ (dp - k))) :: rat)"
    by (simp add: p)
  have scaled: "(of_int (a * 10 ^ (dp - k)) :: rat) / 10 ^ dp = of_int a / 10 ^ k"
    by (simp add: p)
  show ?thesis
  proof (cases "0 \<le> (of_int a / 10 ^ k :: rat)")
    case True
    then show ?thesis
      unfolding big_round_def by (simp only: if_True e floor_half_int scaled)
  next
    case False
    then show ?thesis
      unfolding big_round_def
      by (simp only: if_False e' floor_half_int) (simp add: scaled[symmetric])
  qed
qed


lemma big_div_by_zero [simp]: "big_div dp x 0 = Inl DivisionByZero"
  by (simp add: big_div_def)

lemma big_div_nonzero: "y \<noteq> 0 \<Longrightarrow> big_div dp x y = Inr (big_round dp (x / y))"
  by (simp add: big_div_def)


lemma big_pow_nonneg:
  "0 \<le> n \<Longrightarrow> n \<le> 1000000 \<Longrightarrow> big_pow dp x n = Inr (x ^ nat n)"
  by (simp add: big_pow_def)


lemma getPoolPrice_rounded:
  assumes rA: "0 < reserveA d (pool params)" and rB: "0 < reserveB d (pool params)"
    and dA: "decimalsA params = Some dA" "0 \<le> dA" "dA \<le> int (Big_DP d)"
    and dB: "decimalsB params = Some dB" "0 \<le> dB" "dB \<le> int (Big_DP d)"
    and dp: "Big_DP d \<le> 1000000"
  shows "getPoolPrice d api params =
           Inr (big_round (Big_DP d)
                  (spec_price (reserveA d (pool params)) dA (reserveB d (pool params)) dB),
                big_round (Big_DP d)
                  (spec_price (reserveB d (pool params)) dB (reserveA d (pool params)) dA))"
proof -
  define a :: rat where "a = of_int (reserveA d (pool params)) / 10 ^ nat dA"
  define b :: rat where "b = of_int (reserveB d (pool params)) / 10 ^ nat dB"
  have a0: "a \<noteq> 0" and b0: "b \<noteq> 0" using rA rB by (simp_all add: a_def b_def)
  have powA: "big_pow (Big_DP d) 10 dA = Inr (10 ^ nat dA)"
    and powB: "big_pow (Big_DP d) 10 dB = Inr (10 ^ nat dB)"
    using dA dB dp by (simp_all add: big_pow_nonneg)
  have adjA: "big_div (Big_DP d) (of_int (reserveA d (pool params))) (10 ^ nat dA) = Inr a"
    using dA by (simp add: big_div_nonzero big_round_of_int_div a_def)
  have adjB: "big_div (Big_DP d) (of_int (reserveB d (pool params))) (10 ^ nat dB) = Inr b"
    using dB by (simp add: big_div_nonzero big_round_of_int_div b_def)
  have sAB: "spec_price (reserveA d (pool params)) dA (reserveB d (pool params)) dB = a / b"
    and sBA: "spec_price (reserveB d (pool params)) dB (reserveA d (pool params)) dA = b / a"
    using dA dB by (simp_all add: spec_price_def a_def b_def power_int_def)
  show ?thesis
    unfolding getPoolPrice_def sAB sBA
    by (simp add: dA dB powA powB adjA adjB big_div_nonzero a0 b0)
qed



lemma demo_price_hyps:
  "0 \<le> dA \<Longrightarrow> dA \<le> 20 \<Longrightarrow> 0 \<le> dB \<Longrightarrow> dB \<le> 20 \<Longrightarrow> 0 < rA \<Longrightarrow> 0 < rB \<Longrightarrow>
   getPoolPrice (demo_deps rA rB) api \<lparr>pool = demo_pool, decimalsA = Some dA, decimalsB = Some dB\<rparr>
     = Inr (big_round 20 (spec_price rA dA rB dB), big_round 20 (spec_price rB dB rA dA))"
  using getPoolPrice_rounded[of "demo_deps rA rB"
          "\<lparr>pool = demo_pool, decimalsA = Some dA, decimalsB = Some dB\<rparr>" dA dB api]
  by (simp add: demo_deps_def)

lemma round_third: "big_round 20 (spec_price 1 0 3 0) = 33333333333333333333 / 10 ^ 20"
proof -
  have s: "spec_price 1 0 3 0 = of_int 1 / of_int 3" by (simp add: spec_price_def)
  have "big_round 20 (of_int 1 / of_int 3)
          = of_int ((2 * 1 * 10 ^ 20 + 3) div (2 * 3)) / 10 ^ 20"
    by (rule big_round_ratio) simp_all
  also have "(2 * 1 * 10 ^ 20 + 3) div (2 * 3) = (33333333333333333333::int)" by simp
  finally show ?thesis unfolding s by (simp only: of_int_numeral)
qed

lemma round_three: "big_round 20 (spec_price 3 0 1 0) = 3"
proof -
  have "spec_price 3 0 1 0 = of_int 3 / 10 ^ 0" by (simp add: spec_price_def)
  then show ?thesis using big_round_of_int_div[of 0 20 3] by simp
qed

lemma demo_price_1_3:
  "getPoolPrice (demo_deps 1 3) api \<lparr>pool = demo_pool, decimalsA = Some 0, decimalsB = Some 0\<rparr>
     = Inr (33333333333333333333 / 10 ^ 20, 3)"
  by (simp add: demo_price_hyps round_third round_three)

lemma round_tiny: "big_round 20 (1 / 1000000000000000000000) = 0"
proof -
  have "big_round 20 (of_int 1 / of_int 1000000000000000000000)
          = of_int ((2 * 1 * 10 ^ 20 + 1000000000000000000000) div (2 * 1000000000000000000000))
            / 10 ^ 20"
    by (rule big_round_ratio) simp_all
  also have "(2 * 1 * 10 ^ 20 + 1000000000000000000000) div (2 * 1000000000000000000000) = (0::int)"
    by simp
  finally show ?thesis by simp
qed

lemma round_numeral [simp]: "big_round dp (numeral n) = numeral n"
  using big_round_of_int_div[of 0 dp "numeral n"] by simp

lemma round_one [simp]: "big_round dp 1 = 1"
  using big_round_of_int_div[of 0 dp 1] by simp

lemma demo_price_decimals_21:
  "getPoolPrice (demo_deps 1 1) api \<lparr>pool = demo_pool, decimalsA = Some 21, decimalsB = Some 0\<rparr>
     = Inl DivisionByZero"
proof -
  have a: "big_pow 20 10 21 = Inr 1000000000000000000000" by (simp add: big_pow_def)
  have b: "big_div 20 1 1000000000000000000000 = Inr 0" by (simp add: big_div_def round_tiny)
  have c: "big_pow 20 10 0 = Inr 1" by (simp add: big_pow_def)
  have d: "big_div 20 1 1 = Inr 1" by (simp add: big_div_def)
  have e: "big_div 20 0 1 = Inr 0" by (simp add: big_div_def)
  show ?thesis by (simp add: getPoolPrice_def demo_deps_def a b c d e)
qed


text \<open>
  Claim C4, as stated, says that for positive reserves and supplied decimals the first
  component is \<open>(reserveA / 10^dA) / (reserveB / 10^dB)\<close> and the second its inverse. With
  reserves 1 and 3 and no decimals the first component is \<open>0.33333333333333333333\<close>, not
  \<open>1/3\<close>; with reserves 1 and 1 and 21 decimals for the first asset the adjusted reserve
  rounds to 0 and the call fails with a division by zero.
\<close>

theorem getPoolPrice_exact_ratio_counterexample:
  "getPoolPrice (demo_deps 1 3) demo_client
     \<lparr>pool = demo_pool, decimalsA = Some 0, decimalsB = Some 0\<rparr>
     = Inr (33333333333333333333 / 10 ^ 20, 3)
   \<and> spec_price 1 0 3 0 = 1 / 3
   \<and> (33333333333333333333 / 10 ^ 20 :: rat) \<noteq> 1 / 3
   \<and> getPoolPrice (demo_deps 1 1) demo_client
       \<lparr>pool = demo_pool, decimalsA = Some 21, decimalsB = Some 0\<rparr>
     = Inl DivisionByZero"
  by (simp add: demo_price_1_3 demo_price_decimals_21 spec_price_def)

text \<open>
  Claim C4, amended. For positive reserves and supplied decimals between 0 and the number
  of decimal places that a division keeps (\<^verbatim>\<open>Big.DP\<close>, 20), \<^verbatim>\<open>getPoolPrice\<close> returns the
  exact ratio \<open>(reserveA / 10^dA) / (reserveB / 10^dB)\<close> rounded to that many decimal
  places, to the nearest and half away from zero, and as second component the inverse
  ratio rounded in the same way.
\<close>

theorem getPoolPrice_rounds_ratio:
  assumes "0 < reserveA d (pool params)" and "0 < reserveB d (pool params)"
    and "decimalsA params = Some dA" and "0 \<le> dA" and "dA \<le> int (Big_DP d)"
    and "decimalsB params = Some dB" and "0 \<le> dB" and "dB \<le> int (Big_DP d)"
    and "Big_DP d \<le> 1000000"
  shows "getPoolPrice d api params =
           Inr (big_round (Big_DP d)
                  (spec_price (reserveA d (pool params)) dA (reserveB d (pool params)) dB),
                big_round (Big_DP d)
                  (spec_price (reserveB d (pool params)) dB (reserveA d (pool params)) dA))"
  using assms by (rule getPoolPrice_rounded)

theorem getPoolPrice_rounds_ratio_witness:
  "getPoolPrice (demo_deps 1 3) demo_client
     \<lparr>pool = demo_pool, decimalsA = Some 0, decimalsB = Some 0\<rparr>
     = Inr (33333333333333333333 / 10 ^ 20, 3)"
  using getPoolPrice_rounds_ratio[of "demo_deps 1 3"
          "\<lparr>pool = demo_pool, decimalsA = Some 0, decimalsB = Some 0\<rparr>" 0 0 demo_client]
  by (simp add: demo_deps_def round_third round_three)









end
